theory Spec2Isabelle
  imports Main "HOL-Library.AList"
begin

section \<open>The CRF slot extractor\<close>

text \<open>
  A shallow embedding of the class \<open>CRFExtractor\<close> (the slot extractor of the NLU
  pipeline): the slot assembler of \<open>extract\<close>, \<open>_makeSlot\<close>, the feature
  vectorizer (\<open>_vectorizeToken\<close>, \<open>_vectorize\<close>), the label construction of
  \<open>_trainCrf\<close>, and the training sequence of \<open>train\<close> with its trained flag.

  JavaScript strings are modelled as \<open>string\<close>, numbers that hold character offsets as
  \<open>int\<close>, a property that may be \<open>undefined\<close> as an \<open>option\<close>, and a rejected promise
  or a thrown exception as the left summand of \<open>error + 'a\<close>.
\<close>

subsection \<open>Data model\<close>

datatype error =
    NotTrained          \<comment> \<open>\<open>new Error('Model not trained, please call train() before')\<close>\<close>
  | TypeError           \<comment> \<open>the runtime's error on a property of \<open>undefined\<close> or a call of a non-function\<close>
  | Backend string      \<comment> \<open>an error raised by an external capability (fastText, k-means, CRF)\<close>

record Token =
  tok_value :: string
  tok_start :: int
  tok_end :: int
  tok_tag :: string
  tok_slot :: "string option"
  tok_matchedEntities :: "string list"

record Sequence =
  seq_tokens :: "Token list"
  seq_intent :: string

record SlotDefinition =
  def_name :: string
  def_entity :: string

record Entity =
  ent_name :: string
  meta_start :: int
  meta_end :: int
  data_value :: "string option"

text \<open>
  A slot as \<open>_makeSlot\<close> builds it has \<open>name\<close>, \<open>value\<close> and, when an entity was found,
  \<open>entity\<close>. The reducer of \<open>extract\<close> also writes a property \<open>source\<close>, which no slot
  has when it is made: it is \<open>None\<close> until written.
\<close>

record Slot =
  slot_name :: string
  slot_value :: string
  slot_entity :: "Entity option"
  slot_source :: "string option"

text \<open>
  An entry of the slot collection is a single slot or an array of slots. An array is an
  object too, so the \<open>source\<close> property that the reducer writes lands on the array
  itself when the entry is one: the second argument of \<open>Many\<close>.
\<close>

datatype SlotValue =
    Single Slot
  | Many "Slot list" "string option"

type_synonym SlotsCollection = "(string \<times> SlotValue) list"

text \<open>
  Modelled from the spec: the enum \<open>BIO\<close> is declared in the typings module, which is not
  among the sources. The spec writes the composite labels as \<open>B-artist\<close> and \<open>I-artist\<close>,
  with a two-character prefix before the slot name, so \<open>BIO.BEGINNING\<close> is \<open>B\<close> and
  \<open>BIO.INSIDE\<close> is \<open>I\<close>. The string of \<open>BIO.OUT\<close> is not shown anywhere; every function
  that reads it takes it as the parameter \<open>out\<close>.
\<close>

definition BIO_BEGINNING :: string where
  "BIO_BEGINNING = ''B''"

definition BIO_INSIDE :: string where
  "BIO_INSIDE = ''I''"

subsection \<open>\<open>_makeSlot\<close>\<close>

text \<open>
  \<open>Array.prototype.find\<close> is \<open>List.find\<close>: the first element that satisfies the test, or
  \<open>undefined\<close>. \<open>_.get(entity, 'data.value', token.value)\<close> is the entity's
  \<open>data.value\<close>, or the default when that is \<open>undefined\<close>.
\<close>

definition covers :: "SlotDefinition \<Rightarrow> Token \<Rightarrow> Entity \<Rightarrow> bool" where
  "covers slotDef token e \<longleftrightarrow>
     def_entity slotDef = ent_name e \<and> meta_start e \<le> tok_start token \<and> meta_end e \<ge> tok_end token"

definition makeSlot :: "string \<Rightarrow> Token \<Rightarrow> SlotDefinition list \<Rightarrow> Entity list \<Rightarrow> Slot" where
  "makeSlot slotName token slotDefinitions entitites =
     (let slotDef = List.find (\<lambda>slotDef. def_name slotDef = slotName) slotDefinitions;
          entity = (case slotDef of
                      Some d \<Rightarrow> List.find (covers d token) entitites
                    | None \<Rightarrow> None);
          v = (case entity of
                 Some e \<Rightarrow> (case data_value e of Some dv \<Rightarrow> dv | None \<Rightarrow> tok_value token)
               | None \<Rightarrow> tok_value token)
      in \<lparr>slot_name = slotName, slot_value = v, slot_entity = entity, slot_source = None\<rparr>)"

subsection \<open>The slot assembler of \<open>extract\<close>\<close>

text \<open>
  \<open>_.zip\<close> pairs two arrays by index and is as long as the longer one; the missing
  components are \<open>undefined\<close>.
\<close>

fun zip_lodash :: "'a list \<Rightarrow> 'b list \<Rightarrow> ('a option \<times> 'b option) list" where
  "zip_lodash [] [] = []"
| "zip_lodash (x # xs) [] = (Some x, None) # zip_lodash xs []"
| "zip_lodash [] (y # ys) = (None, Some y) # zip_lodash [] ys"
| "zip_lodash (x # xs) (y # ys) = (Some x, Some y) # zip_lodash xs ys"

text \<open>
  The filter of \<open>extract\<close>. A token is an object, so \<open>!token\<close> holds only of
  \<open>undefined\<close>; \<open>!tag\<close> holds of \<open>undefined\<close> and of the empty string. \<open>tag.slice(2)\<close>
  is \<open>drop 2 tag\<close>.
\<close>

fun keep :: "string \<Rightarrow> SlotDefinition list \<Rightarrow> Token option \<times> string option \<Rightarrow> bool" where
  "keep out slots (Some token, Some tag) =
     (if tag = [] \<or> tag = out then False
      else List.find (\<lambda>slotDef. def_name slotDef = drop 2 tag) slots \<noteq> None)"
| "keep out slots (_, _) = False"

text \<open>
  \<open>x.source += ` ${token.value}`\<close> on an object \<open>x\<close>: the old value of the property,
  which is \<open>undefined\<close> when the property is absent, is converted to a string and the
  suffix is appended.
\<close>

definition append_source :: "string option \<Rightarrow> Token \<Rightarrow> string option" where
  "append_source src token =
     Some ((case src of None \<Rightarrow> ''undefined'' | Some s \<Rightarrow> s) @ '' '' @ tok_value token)"

fun add_source :: "SlotValue \<Rightarrow> Token \<Rightarrow> SlotValue" where
  "add_source (Single s) token = Single (s\<lparr>slot_source := append_source (slot_source s) token\<rparr>)"
| "add_source (Many ss src) token = Many ss (append_source src token)"

text \<open>
  One step of the reducer. \<open>slotCollection[slotName]\<close> is the entry stored under the
  name, which is an object and so truthy, or \<open>undefined\<close>; \<open>tag[0]\<close> is the first
  character as a string, hence \<open>take 1 tag\<close>. In the array branch the source calls
  \<open>slotName[slotName].push(slot)\<close>: \<open>slotName\<close> is a string, and a property of a
  string is \<open>undefined\<close>, a number, a one-character string or a function, none of which
  has a method \<open>push\<close>, so the call throws a \<open>TypeError\<close>. A missing component of the
  pair makes \<open>tag.slice\<close> or \<open>token.start\<close> throw. The lookup of the entry is written
  first here, once; the three branches and their tests are those of the source. The
  collection is kept as an association list in the order in which the names were
  first stored.

  The collection starts as \<open>{}\<close>; the members a slot name would inherit from
  \<open>Object.prototype\<close> (a slot called \<open>constructor\<close> or \<open>toString\<close>) are outside this model.
\<close>

fun reducer :: "SlotDefinition list \<Rightarrow> Entity list \<Rightarrow> SlotsCollection \<Rightarrow>
    Token option \<times> string option \<Rightarrow> error + SlotsCollection" where
  "reducer slots entitites slotCollection (Some token, Some tag) =
     (let slotName = drop 2 tag;
          slot = makeSlot slotName token slots entitites
      in case map_of slotCollection slotName of
           Some existing \<Rightarrow>
             if take 1 tag = BIO_INSIDE then
               Inr (AList.update slotName (add_source existing token) slotCollection)
             else if take 1 tag = BIO_BEGINNING then
               (case existing of
                  Many ss src \<Rightarrow> Inl TypeError
                | Single s \<Rightarrow> Inr (AList.update slotName (Many [s, slot] None) slotCollection))
             else Inr (AList.update slotName (Single slot) slotCollection)
         | None \<Rightarrow> Inr (AList.update slotName (Single slot) slotCollection))"
| "reducer slots entitites slotCollection (_, _) = Inl TypeError"

fun reduce_slots :: "SlotDefinition list \<Rightarrow> Entity list \<Rightarrow> SlotsCollection \<Rightarrow>
    (Token option \<times> string option) list \<Rightarrow> error + SlotsCollection" where
  "reduce_slots slots entitites slotCollection [] = Inr slotCollection"
| "reduce_slots slots entitites slotCollection (p # ps) =
     (case reducer slots entitites slotCollection p of
        Inl e \<Rightarrow> Inl e
      | Inr slotCollection' \<Rightarrow> reduce_slots slots entitites slotCollection' ps)"

definition assemble :: "string \<Rightarrow> SlotDefinition list \<Rightarrow> Entity list \<Rightarrow> Token list \<Rightarrow>
    string list \<Rightarrow> error + SlotsCollection" where
  "assemble out slots entitites tokens tags =
     reduce_slots slots entitites [] (filter (keep out slots) (zip_lodash tokens tags))"

subsection \<open>The feature vectorizer\<close>

text \<open>
  \<open>toLowerCase\<close> and \<open>toUpperCase\<close> on the ASCII letters; every other character is
  left as it is (the model does not cover the case mappings of characters beyond ASCII).
\<close>

definition upper_letters :: string where
  "upper_letters = ''ABCDEFGHIJKLMNOPQRSTUVWXYZ''"

definition lower_letters :: string where
  "lower_letters = ''abcdefghijklmnopqrstuvwxyz''"

definition toLowerCase_char :: "char \<Rightarrow> char" where
  "toLowerCase_char c =
     (case map_of (zip upper_letters lower_letters) c of Some l \<Rightarrow> l | None \<Rightarrow> c)"

definition toUpperCase_char :: "char \<Rightarrow> char" where
  "toUpperCase_char c =
     (case map_of (zip lower_letters upper_letters) c of Some u \<Rightarrow> u | None \<Rightarrow> c)"

definition toLowerCase :: "string \<Rightarrow> string" where
  "toLowerCase s = map toLowerCase_char s"

definition toUpperCase :: "string \<Rightarrow> string" where
  "toUpperCase s = map toUpperCase_char s"

text \<open>\<open>Number.prototype.toString\<close> on a cluster index: the decimal digits.\<close>

definition digit_char :: "nat \<Rightarrow> char" where
  "digit_char d = ''0123456789'' ! d"

fun nat_toString :: "nat \<Rightarrow> string" where
  "nat_toString n =
     (if n < 10 then [digit_char n]
      else nat_toString (n div 10) @ [digit_char (n mod 10)])"

declare nat_toString.simps [simp del]

text \<open>
  The external capabilities the extractor calls: the fastText wrapper (training and word
  vectors), the k-means library, and the CRF trainer and tagger of the toolkit. None of
  them is among the sources; each is a field of this record and may fail. \<open>ft_train\<close>
  stands for the temporary files, the write of the corpus and the training call of
  \<open>_trainLanguageModel\<close>; \<open>crf_train\<close> for the temporary model file, the trainer with
  its parameters, the appended examples and the training call of \<open>_trainCrf\<close>, and
  returns the name of the model file;
  \<open>crf_open\<close> for \<open>createTagger\<close> and \<open>open\<close>; \<open>km_nearest m v\<close> for
  \<open>m.nearest([v])[0]\<close>.
\<close>

record ('ft, 'v, 'km, 'tg) toolkit =
  ft_train :: "string \<Rightarrow> error + 'ft"
  ft_wordVectors :: "'ft \<Rightarrow> string \<Rightarrow> error + 'v"
  kmeans :: "'v list \<Rightarrow> nat \<Rightarrow> error + 'km"
  km_nearest :: "'km \<Rightarrow> 'v \<Rightarrow> error + nat"
  crf_train :: "(string list list \<times> string list) list \<Rightarrow> error + string"
  crf_open :: "string \<Rightarrow> error + 'tg"
  crf_tag :: "'tg \<Rightarrow> string list list \<Rightarrow> error + string list"

text \<open>
  The fields of the extractor. \<open>_ft\<close>, \<open>_tagger\<close> and \<open>_kmeansModel\<close> are
  \<open>undefined\<close> until training assigns them; \<open>_crfModelFn\<close> is the name of the file
  that holds the trained CRF model.
\<close>

record ('ft, 'km, 'tg) CRFExtractor =
  isTrained :: bool
  ft :: "'ft option"
  kmeansModel :: "'km option"
  crfModelFn :: string
  tagger :: "'tg option"

definition new_CRFExtractor :: "('ft, 'km, 'tg) CRFExtractor" where
  "new_CRFExtractor =
     \<lparr>isTrained = False, ft = None, kmeansModel = None, crfModelFn = [], tagger = None\<rparr>"

definition K_CLUSTERS :: nat where
  "K_CLUSTERS = 15"

text \<open>A call on a field that is still \<open>undefined\<close> throws a \<open>TypeError\<close>.\<close>

definition wordVectors :: "('ft, 'v, 'km, 'tg) toolkit \<Rightarrow> ('ft, 'km, 'tg) CRFExtractor \<Rightarrow>
    string \<Rightarrow> error + 'v" where
  "wordVectors tk this word =
     (case ft this of None \<Rightarrow> Inl TypeError | Some f \<Rightarrow> ft_wordVectors tk f word)"

definition getWordCluster :: "('ft, 'v, 'km, 'tg) toolkit \<Rightarrow> ('ft, 'km, 'tg) CRFExtractor \<Rightarrow>
    string \<Rightarrow> error + nat" where
  "getWordCluster tk this word =
     (case wordVectors tk this word of
        Inl e \<Rightarrow> Inl e
      | Inr vector \<Rightarrow>
          (case kmeansModel this of None \<Rightarrow> Inl TypeError | Some m \<Rightarrow> km_nearest tk m vector))"

text \<open>
  \<open>_vectorizeToken\<close>, with \<open>_getWordCluster\<close> as the parameter \<open>cluster\<close>. The three
  case tests come first, in the source's order; \<open>token.value[0]\<close> and
  \<open>token.value[1]\<close> are read only under the guard \<open>token.value.length > 1\<close>.
\<close>

definition isTitle :: "string \<Rightarrow> bool" where
  "isTitle v \<longleftrightarrow>
     length v > 1 \<and> [v ! 0] = toUpperCase [v ! 0] \<and> [v ! 1] = toLowerCase [v ! 1]"

definition vectorizeToken :: "(string \<Rightarrow> error + nat) \<Rightarrow> Token \<Rightarrow> string \<Rightarrow> string \<Rightarrow> bool \<Rightarrow>
    error + string list" where
  "vectorizeToken cluster token intentName featPrefix includeCluster =
     (let vector = [featPrefix @ ''intent='' @ intentName]
            @ (if tok_value token = toLowerCase (tok_value token) then [featPrefix @ ''low''] else [])
            @ (if tok_value token = toUpperCase (tok_value token) then [featPrefix @ ''up''] else [])
            @ (if isTitle (tok_value token) then [featPrefix @ ''title''] else []);
          entititesFeatures =
            map (\<lambda>ent. featPrefix @ ''entity='' @ ent)
              (if tok_matchedEntities token \<noteq> [] then tok_matchedEntities token else [''none''])
      in if includeCluster then
           (case cluster (tok_value token) of
              Inl e \<Rightarrow> Inl e
            | Inr c \<Rightarrow> Inr ((vector @ [featPrefix @ ''cluster='' @ nat_toString c]) @ entititesFeatures))
         else Inr (vector @ entititesFeatures))"

text \<open>
  \<open>tokens[i]\<close> is \<open>undefined\<close> out of range, and \<open>_vectorizeToken\<close> on \<open>undefined\<close>
  throws at \<open>token.value\<close>.
\<close>

definition vectorizeToken_at :: "(string \<Rightarrow> error + nat) \<Rightarrow> Token list \<Rightarrow> nat \<Rightarrow> string \<Rightarrow>
    string \<Rightarrow> bool \<Rightarrow> error + string list" where
  "vectorizeToken_at cluster tokens i intentName featPrefix includeCluster =
     (if i < length tokens
      then vectorizeToken cluster (tokens ! i) intentName featPrefix includeCluster
      else Inl TypeError)"

text \<open>
  \<open>_vectorize\<close>. The index is a loop counter of the callers, a natural number;
  \<open>idx === tokens.length - 1\<close> is compared in the integers, since the length may be 0.
\<close>

definition vectorize :: "(string \<Rightarrow> error + nat) \<Rightarrow> Token list \<Rightarrow> string \<Rightarrow> nat \<Rightarrow>
    error + string list" where
  "vectorize cluster tokens intentName idx =
     (case (if idx = 0 then Inr [''w[0]bos'']
            else vectorizeToken_at cluster tokens (idx - 1) intentName ''w[-1]'' True) of
        Inl e \<Rightarrow> Inl e
      | Inr prev \<Rightarrow>
     (case vectorizeToken_at cluster tokens idx intentName ''w[0]'' False of
        Inl e \<Rightarrow> Inl e
      | Inr current \<Rightarrow>
     (case (if int idx = int (length tokens) - 1 then Inr [''w[0]eos'']
            else vectorizeToken_at cluster tokens (idx + 1) intentName ''w[1]'' True) of
        Inl e \<Rightarrow> Inl e
      | Inr next \<Rightarrow> Inr (prev @ current @ next))))"

text \<open>A loop whose body may throw: the first error ends it.\<close>

fun mapSeries :: "('a \<Rightarrow> error + 'b) \<Rightarrow> 'a list \<Rightarrow> error + 'b list" where
  "mapSeries f [] = Inr []"
| "mapSeries f (x # xs) =
     (case f x of
        Inl e \<Rightarrow> Inl e
      | Inr y \<Rightarrow> (case mapSeries f xs of Inl e \<Rightarrow> Inl e | Inr ys \<Rightarrow> Inr (y # ys)))"

definition vectorize_all :: "(string \<Rightarrow> error + nat) \<Rightarrow> Sequence \<Rightarrow> error + string list list" where
  "vectorize_all cluster seq =
     mapSeries (vectorize cluster (seq_tokens seq) (seq_intent seq)) [0 ..< length (seq_tokens seq)]"

subsection \<open>\<open>_tag\<close> and \<open>extract\<close>\<close>

definition tag :: "('ft, 'v, 'km, 'tg) toolkit \<Rightarrow> ('ft, 'km, 'tg) CRFExtractor \<Rightarrow>
    Sequence \<Rightarrow> error + string list" where
  "tag tk this seq =
     (if \<not> isTrained this then Inl NotTrained
      else case vectorize_all (getWordCluster tk this) seq of
             Inl e \<Rightarrow> Inl e
           | Inr inputVectors \<Rightarrow>
               (case tagger this of None \<Rightarrow> Inl TypeError | Some t \<Rightarrow> crf_tag tk t inputVectors))"

text \<open>
  \<open>extract\<close> first builds the sequence of the utterance with
  \<open>generatePredictionSequence(text, intentDef.name, entitites)\<close>, a function of the
  pre-processor that is not among the sources; its result is the parameter \<open>seq\<close>.
  (The method is called \<open>extract_slots\<close> here, \<open>extract\<close> being a command of Isabelle.)
\<close>

record IntentDefinition =
  int_name :: string
  int_slots :: "SlotDefinition list"

definition extract_slots :: "('ft, 'v, 'km, 'tg) toolkit \<Rightarrow> ('ft, 'km, 'tg) CRFExtractor \<Rightarrow>
    string \<Rightarrow> Sequence \<Rightarrow> IntentDefinition \<Rightarrow> Entity list \<Rightarrow> error + SlotsCollection" where
  "extract_slots tk this out seq intentDef entitites =
     (case tag tk this seq of
        Inl e \<Rightarrow> Inl e
      | Inr tags \<Rightarrow> assemble out (int_slots intentDef) entitites (seq_tokens seq) tags)"

subsection \<open>Training\<close>

text \<open>
  The corpus of \<open>_trainLanguageModel\<close>: one line per sequence, each token written as
  its value when its tag is \<open>BIO.OUT\<close> and as its slot otherwise, joined by spaces.
  \<open>Array.prototype.join\<close> writes an \<open>undefined\<close> element as the empty string.
\<close>

fun join_space :: "string list \<Rightarrow> string" where
  "join_space [] = []"
| "join_space [x] = x"
| "join_space (x # y # ys) = x @ '' '' @ join_space (y # ys)"

definition cannonicSentence :: "string \<Rightarrow> Sequence \<Rightarrow> string" where
  "cannonicSentence out seq =
     join_space (map (\<lambda>s. if tok_tag s = out then tok_value s
                           else (case tok_slot s of None \<Rightarrow> [] | Some n \<Rightarrow> n))
                     (seq_tokens seq))"

definition trainContent :: "string \<Rightarrow> Sequence list \<Rightarrow> string" where
  "trainContent out samples =
     foldl (\<lambda>corpus seq. corpus @ cannonicSentence out seq @ [CHR 0x0A]) [] samples"

text \<open>
  Each stage returns the extractor with the field it assigns, or the error that ended
  it. What a stage has written to its own field before it fails (the fastText handle
  in \<open>_ft\<close>, the file name in \<open>_crfModelFn\<close>) is not kept: no stage writes
  \<open>_isTrained\<close>, and the fields are read only after \<open>_isTrained\<close> is true or by a later
  stage of the same call, which runs only after the stage succeeded.
\<close>

definition trainLanguageModel :: "('ft, 'v, 'km, 'tg) toolkit \<Rightarrow> string \<Rightarrow>
    ('ft, 'km, 'tg) CRFExtractor \<Rightarrow> Sequence list \<Rightarrow> error + ('ft, 'km, 'tg) CRFExtractor" where
  "trainLanguageModel tk out this samples =
     (case ft_train tk (trainContent out samples) of
        Inl e \<Rightarrow> Inl e
      | Inr f \<Rightarrow> Inr (this\<lparr>ft := Some f\<rparr>))"

text \<open>
  \<open>_trainKmeans\<close>: the word vector of every token of every sequence, in order (a token
  value that occurs twice contributes its vector twice), then \<open>kmeans(data, K_CLUSTERS)\<close>;
  the \<open>catch\<close> logs the error and throws it again.
\<close>

definition kmeans_data :: "('ft, 'v, 'km, 'tg) toolkit \<Rightarrow> ('ft, 'km, 'tg) CRFExtractor \<Rightarrow>
    Sequence list \<Rightarrow> error + 'v list" where
  "kmeans_data tk this sequences =
     mapSeries (\<lambda>t. wordVectors tk this (tok_value t)) (concat (map seq_tokens sequences))"

definition trainKmeans :: "('ft, 'v, 'km, 'tg) toolkit \<Rightarrow> ('ft, 'km, 'tg) CRFExtractor \<Rightarrow>
    Sequence list \<Rightarrow> error + ('ft, 'km, 'tg) CRFExtractor" where
  "trainKmeans tk this sequences =
     (case kmeans_data tk this sequences of
        Inl e \<Rightarrow> Inl e
      | Inr data \<Rightarrow>
          (case kmeans tk data K_CLUSTERS of
             Inl error \<Rightarrow> Inl error
           | Inr m \<Rightarrow> Inr (this\<lparr>kmeansModel := Some m\<rparr>)))"

text \<open>
  The label of a token in \<open>_trainCrf\<close>: \<open>`${tag}${labelSlot}`\<close>, where \<open>labelSlot\<close> is
  the slot after a hyphen when the slot is truthy (neither \<open>undefined\<close> nor empty) and
  empty otherwise.
\<close>

definition labelSlot :: "Token \<Rightarrow> string" where
  "labelSlot token =
     (case tok_slot token of
        None \<Rightarrow> []
      | Some n \<Rightarrow> if n \<noteq> [] then ''-'' @ n else [])"

definition label :: "Token \<Rightarrow> string" where
  "label token = tok_tag token @ labelSlot token"

definition crf_example :: "(string \<Rightarrow> error + nat) \<Rightarrow> Sequence \<Rightarrow> error + (string list list \<times> string list)" where
  "crf_example cluster seq =
     (case vectorize_all cluster seq of
        Inl e \<Rightarrow> Inl e
      | Inr inputVectors \<Rightarrow> Inr (inputVectors, map label (seq_tokens seq)))"

definition trainCrf :: "('ft, 'v, 'km, 'tg) toolkit \<Rightarrow> ('ft, 'km, 'tg) CRFExtractor \<Rightarrow>
    Sequence list \<Rightarrow> error + ('ft, 'km, 'tg) CRFExtractor" where
  "trainCrf tk this sequences =
     (case mapSeries (crf_example (getWordCluster tk this)) sequences of
        Inl e \<Rightarrow> Inl e
      | Inr examples \<Rightarrow>
          (case crf_train tk examples of
             Inl e \<Rightarrow> Inl e
           | Inr fn \<Rightarrow> Inr (this\<lparr>crfModelFn := fn\<rparr>)))"

text \<open>
  \<open>train\<close> returns the error that rejected its promise, if any, and the extractor as
  the call leaves it.
\<close>

definition open_tagger :: "('ft, 'v, 'km, 'tg) toolkit \<Rightarrow> ('ft, 'km, 'tg) CRFExtractor \<Rightarrow>
    error + ('ft, 'km, 'tg) CRFExtractor" where
  "open_tagger tk this =
     (case crf_open tk (crfModelFn this) of
        Inl e \<Rightarrow> Inl e
      | Inr t \<Rightarrow> Inr (this\<lparr>tagger := Some t\<rparr>))"

definition train :: "('ft, 'v, 'km, 'tg) toolkit \<Rightarrow> string \<Rightarrow> ('ft, 'km, 'tg) CRFExtractor \<Rightarrow>
    Sequence list \<Rightarrow> error option \<times> ('ft, 'km, 'tg) CRFExtractor" where
  "train tk out this trainingSet =
     (let s0 = this\<lparr>isTrained := False\<rparr> in
      case trainLanguageModel tk out s0 trainingSet of
        Inl e \<Rightarrow> (Some e, s0)
      | Inr s1 \<Rightarrow>
     (case trainKmeans tk s1 trainingSet of
        Inl e \<Rightarrow> (Some e, s1)
      | Inr s2 \<Rightarrow>
     (case trainCrf tk s2 trainingSet of
        Inl e \<Rightarrow> (Some e, s2)
      | Inr s3 \<Rightarrow>
     (case open_tagger tk s3 of
        Inl e \<Rightarrow> (Some e, s3)
      | Inr s4 \<Rightarrow> (None, s4\<lparr>isTrained := True\<rparr>)))))"

text \<open>
  The k-means library is not among the sources: \<open>kmeans\<close> is a field of the toolkit,
  and \<open>_trainKmeans\<close> itself neither counts the points nor compares them. The following
  instance stands for a k-means that, as the library the source imports does, checks
  \<open>K\<close> against the number of points only (\<open>K\<close> positive and at most the number of
  points) and never compares the points with each other; \<open>fit\<close> is the model it
  computes.
\<close>

definition kmeans_by_points :: "('v list \<Rightarrow> nat \<Rightarrow> 'km) \<Rightarrow> 'v list \<Rightarrow> nat \<Rightarrow> error + 'km" where
  "kmeans_by_points fit data k =
     (if k = 0 \<or> k > length data then Inl (Backend ''kmeans'') else Inr (fit data k))"

subsection \<open>States in which no training has succeeded\<close>

text \<open>
  The extractor as constructed, and every extractor left by a call of \<open>train\<close> that
  failed on such an extractor.
\<close>

inductive never_trained :: "('ft, 'v, 'km, 'tg) toolkit \<Rightarrow> string \<Rightarrow> ('ft, 'km, 'tg) CRFExtractor \<Rightarrow> bool"
  for tk :: "('ft, 'v, 'km, 'tg) toolkit" and out :: string where
  fresh: "never_trained tk out new_CRFExtractor"
| failed: "never_trained tk out this \<Longrightarrow> train tk out this trainingSet = (Some e, this') \<Longrightarrow>
     never_trained tk out this'"

subsection \<open>Example data\<close>

text \<open>
  A toolkit whose capabilities all succeed and whose tagger answers with the given
  tags, the extractor it trains, and tokens and entities without annotations.
\<close>

definition ex_toolkit :: "string list \<Rightarrow> (unit, unit, unit, unit) toolkit" where
  "ex_toolkit tags =
     \<lparr>ft_train = (\<lambda>corpus. Inr ()), ft_wordVectors = (\<lambda>f word. Inr ()),
      kmeans = (\<lambda>data k. Inr ()), km_nearest = (\<lambda>m v. Inr 0),
      crf_train = (\<lambda>examples. Inr ''crf.bin''), crf_open = (\<lambda>fn. Inr ()),
      crf_tag = (\<lambda>t inputVectors. Inr tags)\<rparr>"

definition ex_trained :: "string list \<Rightarrow> (unit, unit, unit) CRFExtractor" where
  "ex_trained tags = snd (train (ex_toolkit tags) ''o'' new_CRFExtractor [])"

definition ex_token :: "string \<Rightarrow> int \<Rightarrow> int \<Rightarrow> Token" where
  "ex_token v s e =
     \<lparr>tok_value = v, tok_start = s, tok_end = e, tok_tag = [], tok_slot = None,
      tok_matchedEntities = []\<rparr>"

definition ex_entity :: "string \<Rightarrow> int \<Rightarrow> int \<Rightarrow> string option \<Rightarrow> Entity" where
  "ex_entity n s e v = \<lparr>ent_name = n, meta_start = s, meta_end = e, data_value = v\<rparr>"

definition ex_trainingSet :: "Sequence list" where
  "ex_trainingSet =
     [\<lparr>seq_tokens =
         [\<lparr>tok_value = ''play'', tok_start = 0, tok_end = 4, tok_tag = ''o'', tok_slot = None,
           tok_matchedEntities = []\<rparr>,
          \<lparr>tok_value = ''Kanye'', tok_start = 5, tok_end = 10, tok_tag = ''B'',
           tok_slot = Some ''artist'', tok_matchedEntities = []\<rparr>,
          \<lparr>tok_value = ''West'', tok_start = 11, tok_end = 15, tok_tag = ''I'',
           tok_slot = Some ''artist'', tok_matchedEntities = []\<rparr>],
       seq_intent = ''play''\<rparr>]"

text \<open>
  A toolkit whose word vector of a word is the word itself and whose k-means counts the
  points, and a training set of sixteen utterances \<open>a\<close>.
\<close>

definition ex_points_toolkit :: "(unit, string, unit, unit) toolkit" where
  "ex_points_toolkit =
     \<lparr>ft_train = (\<lambda>corpus. Inr ()), ft_wordVectors = (\<lambda>f word. Inr word),
      kmeans = kmeans_by_points (\<lambda>data k. ()), km_nearest = (\<lambda>m v. Inr 0),
      crf_train = (\<lambda>examples. Inr ''crf.bin''), crf_open = (\<lambda>fn. Inr ()),
      crf_tag = (\<lambda>t inputVectors. Inr [])\<rparr>"

definition ex_repeated :: "Sequence list" where
  "ex_repeated =
     replicate 16
       \<lparr>seq_tokens = [\<lparr>tok_value = ''a'', tok_start = 0, tok_end = 1, tok_tag = ''o'',
                       tok_slot = None, tok_matchedEntities = []\<rparr>],
        seq_intent = ''play''\<rparr>"

section \<open>Properties\<close>

subsection \<open>The slot assembler\<close>

lemma ex_trained_eq:
  "ex_trained tags =
     \<lparr>isTrained = True, ft = Some (), kmeansModel = Some (), crfModelFn = ''crf.bin'',
      tagger = Some ()\<rparr>"
  by (simp add: ex_trained_def train_def ex_toolkit_def new_CRFExtractor_def
      trainLanguageModel_def trainKmeans_def kmeans_data_def trainCrf_def open_tagger_def)

lemmas ex_eval =
  extract_slots_def tag_def ex_trained_eq ex_toolkit_def vectorize_all_def vectorize_def
  vectorizeToken_at_def vectorizeToken_def getWordCluster_def wordVectors_def ex_token_def
  assemble_def makeSlot_def Let_def BIO_INSIDE_def BIO_BEGINNING_def append_source_def upt_rec

text \<open>
  C1: a kept pair with an \<open>I-\<close> label whose slot already exists should append the
  token's value to the slot's value, so that \<open>Kanye West\<close> tagged \<open>B-artist\<close>,
  \<open>I-artist\<close> gives the one slot \<open>artist\<close> with value \<open>Kanye West\<close>. The reducer writes
  the property \<open>source\<close> instead, which the slot does not have: the value stays
  \<open>Kanye\<close> and \<open>source\<close> becomes \<open>undefined West\<close>.
\<close>

theorem extract_inside_appends_to_source:
  "extract_slots (ex_toolkit [''B-artist'', ''I-artist'']) (ex_trained [''B-artist'', ''I-artist'']) ''o''
     \<lparr>seq_tokens = [ex_token ''Kanye'' 0 5, ex_token ''West'' 6 10], seq_intent = ''play''\<rparr>
     \<lparr>int_name = ''play'', int_slots = [\<lparr>def_name = ''artist'', def_entity = ''person''\<rparr>]\<rparr> []
   = Inr [(''artist'', Single \<lparr>slot_name = ''artist'', slot_value = ''Kanye'', slot_entity = None,
                                slot_source = Some ''undefined West''\<rparr>)]"
  by (simp add: ex_eval)

lemma extract_second_beginning_makes_array:
  "extract_slots (ex_toolkit [''B-song'', ''o'', ''B-song'']) (ex_trained []) ''o''
     \<lparr>seq_tokens = [ex_token ''Thriller'' 0 8, ex_token ''and'' 9 12, ex_token ''Bad'' 13 16],
      seq_intent = ''play''\<rparr>
     \<lparr>int_name = ''play'', int_slots = [\<lparr>def_name = ''song'', def_entity = ''any''\<rparr>]\<rparr> []
   = Inr [(''song'',
           Many [\<lparr>slot_name = ''song'', slot_value = ''Thriller'', slot_entity = None,
                   slot_source = None\<rparr>,
                 \<lparr>slot_name = ''song'', slot_value = ''Bad'', slot_entity = None,
                   slot_source = None\<rparr>] None)]"
  by (simp add: ex_eval)

text \<open>
  C2: \<open>k \<ge> 2\<close> kept pairs with a \<open>B-\<close> label of one slot name should give an array of
  \<open>k\<close> slots in order. The second pair makes the two-element array; the third reaches
  \<open>slotName[slotName].push(slot)\<close>, which throws, and \<open>extract\<close> is rejected with a
  \<open>TypeError\<close>.
\<close>

theorem extract_third_beginning_throws:
  "extract_slots (ex_toolkit [''B-song'', ''B-song'', ''B-song'']) (ex_trained []) ''o''
     \<lparr>seq_tokens = [ex_token ''Thriller'' 0 8, ex_token ''Bad'' 9 12, ex_token ''Beat'' 13 17],
      seq_intent = ''play''\<rparr>
     \<lparr>int_name = ''play'', int_slots = [\<lparr>def_name = ''song'', def_entity = ''any''\<rparr>]\<rparr> []
   = Inl TypeError"
  by (simp add: ex_eval)

lemma filter_keep_left_only: "filter (keep out slots) (zip_lodash xs []) = []"
  by (induction xs) simp_all

lemma filter_keep_right_only: "filter (keep out slots) (zip_lodash [] ys) = []"
  by (induction ys) simp_all

lemma filter_keep_zip_lodash:
  "filter (keep out slots) (zip_lodash xs ys) =
   filter (keep out slots) (map (\<lambda>(t, g). (Some t, Some g)) (zip xs ys))"
proof (induction xs ys rule: zip_lodash.induct)
  case 1
  show ?case by simp
next
  case (2 x xs)
  show ?case using filter_keep_left_only [of out slots "x # xs"] by simp
next
  case (3 y ys)
  show ?case using filter_keep_right_only [of out slots "y # ys"] by simp
next
  case (4 x xs y ys)
  then show ?case by simp
qed

lemma zip_take_min:
  "zip (take (min (length xs) (length ys)) xs) (take (min (length xs) (length ys)) ys) = zip xs ys"
  by (induction xs ys rule: list_induct2') simp_all

lemma kept_pairs_present:
  assumes "p \<in> set (filter (keep out slots) ps)"
  shows "\<exists>t g. p = (Some t, Some g) \<and> g \<noteq> out \<and> g \<noteq> []"
proof -
  from assms have k: "keep out slots p" by simp
  obtain a b where p: "p = (a, b)" by (cases p)
  show ?thesis
  proof (cases a)
    case None
    with k p show ?thesis by simp
  next
    case (Some t)
    show ?thesis
    proof (cases b)
      case None
      with k p Some show ?thesis by simp
    next
      case (Some g)
      with k p \<open>a = Some t\<close> show ?thesis by (auto split: if_splits)
    qed
  qed
qed

text \<open>
  C5: for tokens of length \<open>N\<close> and tags of length \<open>M\<close>, the assembler is the reducer
  run, from the empty collection, over the pairs that the filter keeps of the
  \<open>min N M\<close> positional pairs of a token and its tag: the pairs beyond, which lack a
  component, and the pairs tagged \<open>OUT\<close> are dropped by the filter, every pair the
  reducer receives has both components, and the result is the result on the two lists
  cut to \<open>min N M\<close>. No step reads a missing component.
\<close>

theorem assemble_truncates:
  fixes tokens :: "Token list" and tags :: "string list"
  defines "k \<equiv> min (length tokens) (length tags)"
  shows "assemble out slots entitites tokens tags =
           reduce_slots slots entitites []
             (filter (keep out slots) (map (\<lambda>(t, g). (Some t, Some g)) (zip tokens tags)))
       \<and> filter (keep out slots) (zip_lodash tokens tags) =
           filter (keep out slots) (map (\<lambda>(t, g). (Some t, Some g)) (zip tokens tags))
       \<and> length (zip tokens tags) = k
       \<and> (\<forall>p \<in> set (filter (keep out slots) (zip_lodash tokens tags)).
             \<exists>t g. p = (Some t, Some g) \<and> g \<noteq> out)
       \<and> assemble out slots entitites tokens tags =
           assemble out slots entitites (take k tokens) (take k tags)"
proof -
  have a: "filter (keep out slots) (zip_lodash tokens tags) =
           filter (keep out slots) (map (\<lambda>(t, g). (Some t, Some g)) (zip tokens tags))"
    by (rule filter_keep_zip_lodash)
  have r: "assemble out slots entitites tokens tags =
           reduce_slots slots entitites []
             (filter (keep out slots) (map (\<lambda>(t, g). (Some t, Some g)) (zip tokens tags)))"
    by (simp add: assemble_def a)
  have b: "length (zip tokens tags) = k" by (simp add: k_def)
  have c: "\<forall>p \<in> set (filter (keep out slots) (zip_lodash tokens tags)).
             \<exists>t g. p = (Some t, Some g) \<and> g \<noteq> out"
    using kept_pairs_present by blast
  have "filter (keep out slots) (zip_lodash (take k tokens) (take k tags)) =
        filter (keep out slots) (map (\<lambda>(t, g). (Some t, Some g)) (zip (take k tokens) (take k tags)))"
    by (rule filter_keep_zip_lodash)
  also have "zip (take k tokens) (take k tags) = zip tokens tags"
    unfolding k_def by (rule zip_take_min)
  finally have d: "assemble out slots entitites tokens tags =
           assemble out slots entitites (take k tokens) (take k tags)"
    by (simp add: assemble_def a)
  from r a b c d show ?thesis by blast
qed

theorem assemble_truncates_witness:
  "assemble ''o'' [\<lparr>def_name = ''destination'', def_entity = ''city''\<rparr>] []
     [ex_token ''to'' 0 2, ex_token ''Paris'' 3 8, ex_token ''now'' 9 12] [''o'', ''B-destination'']
     = Inr [(''destination'',
             Single \<lparr>slot_name = ''destination'', slot_value = ''Paris'', slot_entity = None,
                     slot_source = None\<rparr>)]
   \<and> filter (keep ''o'' [\<lparr>def_name = ''destination'', def_entity = ''city''\<rparr>])
     (zip_lodash [ex_token ''to'' 0 2, ex_token ''Paris'' 3 8, ex_token ''now'' 9 12]
        [''o'', ''B-destination''])
     = [(Some (ex_token ''Paris'' 3 8), Some ''B-destination'')]
   \<and> min (length [ex_token ''to'' 0 2, ex_token ''Paris'' 3 8, ex_token ''now'' 9 12])
         (length [''o'', ''B-destination'']) = 2
   \<and> assemble ''o'' [\<lparr>def_name = ''destination'', def_entity = ''city''\<rparr>] []
        [ex_token ''to'' 0 2, ex_token ''Paris'' 3 8, ex_token ''now'' 9 12] [''o'', ''B-destination'']
     = assemble ''o'' [\<lparr>def_name = ''destination'', def_entity = ''city''\<rparr>] []
        [ex_token ''to'' 0 2, ex_token ''Paris'' 3 8] [''o'', ''B-destination'']"
proof -
  note t = assemble_truncates [of "''o''" "[\<lparr>def_name = ''destination'', def_entity = ''city''\<rparr>]"
      "[]" "[ex_token ''to'' 0 2, ex_token ''Paris'' 3 8, ex_token ''now'' 9 12]"
      "[''o'', ''B-destination'']"]
  have r: "reduce_slots [\<lparr>def_name = ''destination'', def_entity = ''city''\<rparr>] []  []
      (filter (keep ''o'' [\<lparr>def_name = ''destination'', def_entity = ''city''\<rparr>])
         (map (\<lambda>(t, g). (Some t, Some g))
            (zip [ex_token ''to'' 0 2, ex_token ''Paris'' 3 8, ex_token ''now'' 9 12]
               [''o'', ''B-destination''])))
     = Inr [(''destination'',
             Single \<lparr>slot_name = ''destination'', slot_value = ''Paris'', slot_entity = None,
                     slot_source = None\<rparr>)]"
    by (simp add: makeSlot_def ex_token_def Let_def)
  from t r show ?thesis by (simp add: assemble_def makeSlot_def ex_token_def Let_def)
qed

subsection \<open>\<open>_makeSlot\<close>\<close>

text \<open>
  C10: when the slot is declared and some supplied entity of the declared entity type
  covers the token's span (\<open>meta.start \<le> token.start\<close> and \<open>meta.end \<ge> token.end\<close>),
  the first such entity of the list is used: its \<open>data.value\<close>, or the token's value
  when that is absent, is the slot's value, and the entity is attached. The slot has
  an entity exactly when such an entity is in the list; without one the value is the
  token's.
\<close>

theorem makeSlot_first_covering_entity:
  fixes d :: SlotDefinition and token :: Token
  defines "P \<equiv> (\<lambda>e. def_entity d = ent_name e \<and> meta_start e \<le> tok_start token
                       \<and> tok_end token \<le> meta_end e)"
  assumes d: "List.find (\<lambda>sd. def_name sd = slotName) slotDefinitions = Some d"
    and i: "i < length entitites" and Pi: "P (entitites ! i)"
    and first: "\<forall>j < i. \<not> P (entitites ! j)"
  shows "makeSlot slotName token slotDefinitions entitites =
           \<lparr>slot_name = slotName,
            slot_value = (case data_value (entitites ! i) of Some dv \<Rightarrow> dv | None \<Rightarrow> tok_value token),
            slot_entity = Some (entitites ! i), slot_source = None\<rparr>
       \<and> (\<forall>es. slot_entity (makeSlot slotName token slotDefinitions es) = None \<longleftrightarrow>
                \<not> (\<exists>e \<in> set es. P e))
       \<and> (\<forall>es. (\<forall>e \<in> set es. \<not> P e) \<longrightarrow>
             makeSlot slotName token slotDefinitions es =
               \<lparr>slot_name = slotName, slot_value = tok_value token, slot_entity = None,
                slot_source = None\<rparr>)"
proof -
  have cov: "covers d token = P"
    by (rule ext) (simp add: covers_def P_def)
  have "List.find P entitites = Some (entitites ! i)"
    using i Pi first by (auto simp: find_Some_iff)
  then have a: "makeSlot slotName token slotDefinitions entitites =
           \<lparr>slot_name = slotName,
            slot_value = (case data_value (entitites ! i) of Some dv \<Rightarrow> dv | None \<Rightarrow> tok_value token),
            slot_entity = Some (entitites ! i), slot_source = None\<rparr>"
    by (simp add: makeSlot_def d cov)
  have b: "slot_entity (makeSlot slotName token slotDefinitions es) = None \<longleftrightarrow>
           \<not> (\<exists>e \<in> set es. P e)" for es
    by (auto simp add: makeSlot_def d cov Let_def find_None_iff)
  have c: "makeSlot slotName token slotDefinitions es =
               \<lparr>slot_name = slotName, slot_value = tok_value token, slot_entity = None,
                slot_source = None\<rparr>"
    if "\<forall>e \<in> set es. \<not> P e" for es
  proof -
    from that have "List.find P es = None" by (simp add: find_None_iff)
    then show ?thesis by (simp add: makeSlot_def d cov)
  qed
  from a b c show ?thesis by blast
qed

theorem makeSlot_first_covering_entity_witness:
  "makeSlot ''artist'' (ex_token ''West'' 6 10) [\<lparr>def_name = ''artist'', def_entity = ''person''\<rparr>]
     [ex_entity ''person'' 20 30 (Some ''Jay Z''), ex_entity ''person'' 0 10 (Some ''Kanye West''),
      ex_entity ''person'' 6 10 None] =
   \<lparr>slot_name = ''artist'', slot_value = ''Kanye West'',
    slot_entity = Some (ex_entity ''person'' 0 10 (Some ''Kanye West'')), slot_source = None\<rparr>"
  using makeSlot_first_covering_entity [of "''artist''"
     "[\<lparr>def_name = ''artist'', def_entity = ''person''\<rparr>]"
     "\<lparr>def_name = ''artist'', def_entity = ''person''\<rparr>" 1
     "[ex_entity ''person'' 20 30 (Some ''Jay Z''), ex_entity ''person'' 0 10 (Some ''Kanye West''),
      ex_entity ''person'' 6 10 None]" "ex_token ''West'' 6 10"]
  by (simp add: ex_entity_def ex_token_def)

subsection \<open>The feature vectorizer\<close>

lemma vectorizeToken_returns:
  assumes "\<not> includeCluster \<or> (\<exists>c. cluster (tok_value token) = Inr c)"
  shows "\<exists>fv. vectorizeToken cluster token intentName featPrefix includeCluster = Inr fv"
  using assms by (auto simp: vectorizeToken_def Let_def)

lemmas case_eval =
  isTitle_def toLowerCase_def toUpperCase_def toLowerCase_char_def toUpperCase_char_def
  upper_letters_def lower_letters_def

text \<open>
  C8: at a position of the sequence, with a cluster lookup that answers, \<open>_vectorize\<close>
  returns \<open>prev @ current @ next\<close> in this order, where \<open>current\<close> is the features of
  the token itself, \<open>prev\<close> is exactly the one marker \<open>w[0]bos\<close> at index 0 and the
  features of the token before otherwise, and \<open>next\<close> is exactly the one marker
  \<open>w[0]eos\<close> at the last index and the features of the token after otherwise.
\<close>

theorem vectorize_segments:
  assumes idx: "idx < length tokens" and total: "\<forall>w. \<exists>c. cluster w = Inr c"
  shows "\<exists>prev current next.
      vectorize cluster tokens intentName idx = Inr (prev @ current @ next)
    \<and> (if idx = 0 then prev = [''w[0]bos'']
       else vectorizeToken cluster (tokens ! (idx - 1)) intentName ''w[-1]'' True = Inr prev)
    \<and> vectorizeToken cluster (tokens ! idx) intentName ''w[0]'' False = Inr current
    \<and> (if idx = length tokens - 1 then next = [''w[0]eos'']
       else vectorizeToken cluster (tokens ! (idx + 1)) intentName ''w[1]'' True = Inr next)"
proof -
  obtain current where cur: "vectorizeToken cluster (tokens ! idx) intentName ''w[0]'' False = Inr current"
    using vectorizeToken_returns [of False] by blast
  obtain p where p: "vectorizeToken cluster (tokens ! (idx - 1)) intentName ''w[-1]'' True = Inr p"
    using vectorizeToken_returns [of True cluster] total by blast
  obtain n where n: "vectorizeToken cluster (tokens ! (idx + 1)) intentName ''w[1]'' True = Inr n"
    using vectorizeToken_returns [of True cluster] total by blast
  define prev where "prev = (if idx = 0 then [''w[0]bos''] else p)"
  define nxt where "nxt = (if idx = length tokens - 1 then [''w[0]eos''] else n)"
  have last: "(int idx = int (length tokens) - 1) = (idx = length tokens - 1)"
    using idx by auto
  have "vectorize cluster tokens intentName idx = Inr (prev @ current @ nxt)"
    using idx cur p n
    by (auto simp: vectorize_def vectorizeToken_at_def prev_def nxt_def last)
  moreover have "if idx = 0 then prev = [''w[0]bos'']
       else vectorizeToken cluster (tokens ! (idx - 1)) intentName ''w[-1]'' True = Inr prev"
    using p by (simp add: prev_def)
  moreover have "if idx = length tokens - 1 then nxt = [''w[0]eos'']
       else vectorizeToken cluster (tokens ! (idx + 1)) intentName ''w[1]'' True = Inr nxt"
    using n by (simp add: nxt_def)
  ultimately show ?thesis using cur by blast
qed

theorem vectorize_segments_witness:
  "vectorize (\<lambda>w. Inr 3) [ex_token ''Kanye'' 0 5] ''play'' 0
     = Inr ([''w[0]bos''] @ [''w[0]intent=play'', ''w[0]title'', ''w[0]entity=none''] @ [''w[0]eos''])"
proof -
  have "\<forall>w. \<exists>c. (\<lambda>w. Inr 3 :: error + nat) w = Inr c" by simp
  moreover have "0 < length [ex_token ''Kanye'' 0 5]" by simp
  ultimately show ?thesis
    using vectorize_segments [of 0 "[ex_token ''Kanye'' 0 5]" "\<lambda>w. Inr 3" "''play''"]
    by (auto simp: vectorizeToken_def ex_token_def case_eval Let_def)
qed

text \<open>
  C9, as claimed: a token whose first character is upper case and whose second
  character, when there is one, is lower case gets the title flag. The source tests
  \<open>token.value.length > 1\<close> first, so the one-character token \<open>A\<close> gets no title flag.
\<close>

theorem title_flag_single_char_counterexample:
  "toUpperCase_char CHR ''A'' = CHR ''A''
   \<and> vectorizeToken (\<lambda>w. Inr 0) (ex_token ''A'' 0 1) ''play'' ''w[0]'' False
       = Inr [''w[0]intent=play'', ''w[0]up'', ''w[0]entity=none'']
   \<and> ''w[0]title'' \<notin> set [''w[0]intent=play'', ''w[0]up'', ''w[0]entity=none'']"
  by (simp add: vectorizeToken_def ex_token_def case_eval Let_def)

text \<open>
  C9, amended: the vectorizer emits the title flag for a window position exactly when
  the token has at least two characters, its first character is the upper-case form of
  itself and its second character is the lower-case form of itself; a token of fewer
  than two characters never gets it.
\<close>

theorem title_flag:
  assumes "\<not> includeCluster \<or> (\<exists>c. cluster (tok_value token) = Inr c)"
  shows "\<exists>fv. vectorizeToken cluster token intentName featPrefix includeCluster = Inr fv
     \<and> (featPrefix @ ''title'' \<in> set fv \<longleftrightarrow>
          2 \<le> length (tok_value token)
        \<and> toUpperCase_char (tok_value token ! 0) = tok_value token ! 0
        \<and> toLowerCase_char (tok_value token ! 1) = tok_value token ! 1)"
  using assms
  by (auto simp: vectorizeToken_def Let_def isTitle_def toLowerCase_def toUpperCase_def)

theorem title_flag_witness:
  "vectorizeToken (\<lambda>w. Inr 0) (ex_token ''Kanye'' 0 5) ''play'' ''w[-1]'' True =
     Inr [''w[-1]intent=play'', ''w[-1]title'', ''w[-1]cluster=0'', ''w[-1]entity=none'']
   \<and> ''w[-1]'' @ ''title'' \<in> set [''w[-1]intent=play'', ''w[-1]title'', ''w[-1]cluster=0'', ''w[-1]entity=none'']
   \<and> 2 \<le> length ''Kanye'' \<and> toUpperCase_char CHR ''K'' = CHR ''K'' \<and> toLowerCase_char CHR ''a'' = CHR ''a''"
  using title_flag [of True "\<lambda>w. Inr 0" "ex_token ''Kanye'' 0 5" "''play''" "''w[-1]''"]
  by (simp add: vectorizeToken_def ex_token_def case_eval Let_def
      nat_toString.simps digit_char_def)

subsection \<open>The labels of \<open>_trainCrf\<close>\<close>

lemma mapSeries_map:
  "(\<And>x. x \<in> set xs \<Longrightarrow> f x = Inr (g x)) \<Longrightarrow> mapSeries f xs = Inr (map g xs)"
  by (induction xs) simp_all

lemma mapSeries_replicate:
  "f x = Inr y \<Longrightarrow> mapSeries f (replicate n x) = Inr (replicate n y)"
  by (induction n) simp_all

lemma concat_replicate_single: "concat (replicate n [x]) = replicate n x"
  by (induction n) simp_all

text \<open>
  C6, as claimed: the label is the tag alone when the tag is \<open>OUT\<close> and \<open>tag-slot\<close>
  otherwise. The source decides on the slot, not on the tag: a token tagged \<open>OUT\<close>
  (written \<open>o\<close> here) that carries the slot \<open>artist\<close> is labelled \<open>o-artist\<close>, and a token
  tagged \<open>B\<close> whose slot is the empty string is labelled \<open>B\<close>, not \<open>B-\<close>.
\<close>

theorem label_counterexample:
  "label \<lparr>tok_value = ''the'', tok_start = 0, tok_end = 3, tok_tag = ''o'',
          tok_slot = Some ''artist'', tok_matchedEntities = []\<rparr> = ''o-artist''
   \<and> label \<lparr>tok_value = ''the'', tok_start = 0, tok_end = 3, tok_tag = ''o'',
          tok_slot = Some ''artist'', tok_matchedEntities = []\<rparr> \<noteq> ''o''
   \<and> label \<lparr>tok_value = ''Kanye'', tok_start = 0, tok_end = 5, tok_tag = BIO_BEGINNING,
          tok_slot = Some [], tok_matchedEntities = []\<rparr> = ''B''
   \<and> label \<lparr>tok_value = ''Kanye'', tok_start = 0, tok_end = 5, tok_tag = BIO_BEGINNING,
          tok_slot = Some [], tok_matchedEntities = []\<rparr> \<noteq> BIO_BEGINNING @ ''-'' @ []"
  by (simp add: label_def labelSlot_def BIO_BEGINNING_def)

text \<open>
  C6, amended: the label of a token is its tag alone when the token has no slot or an
  empty one, and the tag, a hyphen and the slot otherwise; so on a token whose slot is
  absent or empty exactly when its tag is \<open>OUT\<close> it is the tag alone for \<open>OUT\<close> and
  \<open>tag-slot\<close> otherwise. The labels of a training example are these labels of its
  tokens, in order.
\<close>

theorem label_by_slot:
  "label token =
     (case tok_slot token of
        None \<Rightarrow> tok_tag token
      | Some n \<Rightarrow> if n = [] then tok_tag token else tok_tag token @ ''-'' @ n)
   \<and> (((tok_slot token = None \<or> tok_slot token = Some []) \<longleftrightarrow> tok_tag token = out) \<longrightarrow>
        label token =
          (if tok_tag token = out then tok_tag token
           else tok_tag token @ ''-'' @ the (tok_slot token)))
   \<and> (\<forall>inputVectors labels. crf_example cluster seq = Inr (inputVectors, labels) \<longrightarrow>
        labels = map label (seq_tokens seq))"
  by (auto simp: label_def labelSlot_def crf_example_def split: option.splits sum.splits)

theorem label_by_slot_witness:
  "label \<lparr>tok_value = ''West'', tok_start = 6, tok_end = 10, tok_tag = ''I'', tok_slot = Some ''artist'',
          tok_matchedEntities = []\<rparr> = ''I-artist''
   \<and> crf_example (\<lambda>w. Inr 0)
        \<lparr>seq_tokens = [\<lparr>tok_value = ''West'', tok_start = 6, tok_end = 10, tok_tag = ''I'',
                        tok_slot = Some ''artist'', tok_matchedEntities = []\<rparr>],
         seq_intent = ''play''\<rparr>
      = Inr ([[''w[0]bos'', ''w[0]intent=play'', ''w[0]title'', ''w[0]entity=none'', ''w[0]eos'']],
             [''I-artist''])"
  using label_by_slot [of "\<lparr>tok_value = ''West'', tok_start = 6, tok_end = 10, tok_tag = ''I'',
      tok_slot = Some ''artist'', tok_matchedEntities = []\<rparr>" "''o''" "\<lambda>w. Inr 0"
      "\<lparr>seq_tokens = [\<lparr>tok_value = ''West'', tok_start = 6, tok_end = 10, tok_tag = ''I'',
                        tok_slot = Some ''artist'', tok_matchedEntities = []\<rparr>],
         seq_intent = ''play''\<rparr>"]
  by (simp add: crf_example_def vectorize_all_def vectorize_def vectorizeToken_at_def
      vectorizeToken_def case_eval Let_def)

subsection \<open>The trained flag\<close>

lemma trainLanguageModel_isTrained:
  "trainLanguageModel tk out this ts = Inr s \<Longrightarrow> isTrained s = isTrained this"
  by (auto simp: trainLanguageModel_def split: sum.splits)

lemma trainKmeans_isTrained:
  "trainKmeans tk this ts = Inr s \<Longrightarrow> isTrained s = isTrained this"
  by (auto simp: trainKmeans_def split: sum.splits)

lemma trainCrf_isTrained:
  "trainCrf tk this ts = Inr s \<Longrightarrow> isTrained s = isTrained this"
  by (auto simp: trainCrf_def split: sum.splits)

lemma open_tagger_isTrained:
  "open_tagger tk this = Inr s \<Longrightarrow> isTrained s = isTrained this"
  by (auto simp: open_tagger_def split: sum.splits)

lemma train_failed_untrained:
  assumes "train tk out this ts = (Some e, s)"
  shows "\<not> isTrained s"
  using assms
  by (auto simp: train_def Let_def split: sum.splits
      dest!: trainLanguageModel_isTrained trainKmeans_isTrained trainCrf_isTrained open_tagger_isTrained)

lemma tag_untrained: "\<not> isTrained this \<Longrightarrow> tag tk this seq = Inl NotTrained"
  by (simp add: tag_def)

lemma never_trained_untrained: "never_trained tk out this \<Longrightarrow> \<not> isTrained this"
  by (induction rule: never_trained.induct) (auto simp: new_CRFExtractor_def dest: train_failed_untrained)

text \<open>
  C3: on an extractor on which no call of \<open>train\<close> has succeeded (as constructed, or
  left by failed calls of \<open>train\<close>) the trained flag is false, and with the flag false
  \<open>_tag\<close>, and so \<open>extract\<close>, fails with the not-trained error for every sequence,
  whatever the tagger would answer.
\<close>

theorem tag_before_training:
  "(never_trained tk out this \<longrightarrow> \<not> isTrained this)
   \<and> (\<not> isTrained this \<longrightarrow>
        tag tk' this seq = Inl NotTrained
      \<and> extract_slots tk' this out' seq intentDef entitites = Inl NotTrained)"
  using never_trained_untrained [of tk out this] tag_untrained [of this tk' seq]
  by (auto simp: extract_slots_def)

theorem tag_before_training_witness:
  "tag (ex_toolkit [''B-artist'']) (new_CRFExtractor :: (unit, unit, unit) CRFExtractor)
     \<lparr>seq_tokens = [ex_token ''Kanye'' 0 5], seq_intent = ''play''\<rparr> = Inl NotTrained
   \<and> extract_slots (ex_toolkit [''B-artist'']) (new_CRFExtractor :: (unit, unit, unit) CRFExtractor) ''o''
       \<lparr>seq_tokens = [ex_token ''Kanye'' 0 5], seq_intent = ''play''\<rparr>
       \<lparr>int_name = ''play'', int_slots = [\<lparr>def_name = ''artist'', def_entity = ''person''\<rparr>]\<rparr> []
     = Inl NotTrained"
proof -
  have "never_trained (ex_toolkit []) ''o'' (new_CRFExtractor :: (unit, unit, unit) CRFExtractor)"
    by (rule never_trained.fresh)
  with tag_before_training [of "ex_toolkit []" "''o''" new_CRFExtractor "ex_toolkit [''B-artist'']"]
  show ?thesis by blast
qed

text \<open>
  C4: when a stage of \<open>train\<close> (the language model, the clustering, the CRF training or
  the opening of the tagger) ends with an error, \<open>train\<close> ends with that same error and
  leaves the trained flag false, whatever it was before the call; tagging and
  extraction on the extractor it leaves fail with the not-trained error.
\<close>

theorem train_failure_leaves_untrained:
  fixes this :: "('ft, 'km, 'tg) CRFExtractor"
  defines "s0 \<equiv> this\<lparr>isTrained := False\<rparr>"
  assumes stage:
    "trainLanguageModel tk out s0 ts = Inl e
     \<or> (\<exists>s1. trainLanguageModel tk out s0 ts = Inr s1 \<and>
          (trainKmeans tk s1 ts = Inl e
           \<or> (\<exists>s2. trainKmeans tk s1 ts = Inr s2 \<and>
                (trainCrf tk s2 ts = Inl e
                 \<or> (\<exists>s3. trainCrf tk s2 ts = Inr s3 \<and> open_tagger tk s3 = Inl e)))))"
  shows "\<exists>s. train tk out this ts = (Some e, s) \<and> \<not> isTrained s
           \<and> tag tk' s seq = Inl NotTrained
           \<and> extract_slots tk' s out' seq intentDef entitites = Inl NotTrained"
proof -
  from stage obtain s where t: "train tk out this ts = (Some e, s)"
    unfolding s0_def by (auto simp: train_def Let_def)
  then have u: "\<not> isTrained s" by (rule train_failed_untrained)
  then have "tag tk' s seq = Inl NotTrained" by (rule tag_untrained)
  then have "extract_slots tk' s out' seq intentDef entitites = Inl NotTrained"
    by (simp add: extract_slots_def)
  with t u \<open>tag tk' s seq = Inl NotTrained\<close> show ?thesis by blast
qed

theorem train_failure_leaves_untrained_witness:
  "train ((ex_toolkit []) \<lparr>crf_train := (\<lambda>examples. Inl (Backend ''crf''))\<rparr>) ''o''
     (ex_trained []) ex_trainingSet
   = (Some (Backend ''crf''),
      \<lparr>isTrained = False, ft = Some (), kmeansModel = Some (), crfModelFn = ''crf.bin'',
       tagger = Some ()\<rparr>)
   \<and> tag (ex_toolkit [''o'']) \<lparr>isTrained = False, ft = Some (), kmeansModel = Some (),
        crfModelFn = ''crf.bin'', tagger = Some ()\<rparr>
        \<lparr>seq_tokens = [ex_token ''hello'' 0 5], seq_intent = ''play''\<rparr> = Inl NotTrained"
proof -
  let ?tk = "(ex_toolkit []) \<lparr>crf_train := (\<lambda>examples. Inl (Backend ''crf''))\<rparr>"
  let ?s = "\<lparr>isTrained = False, ft = Some (), kmeansModel = Some (), crfModelFn = ''crf.bin'',
       tagger = Some ()\<rparr> :: (unit, unit, unit) CRFExtractor"
  have 1: "trainLanguageModel ?tk ''o'' ((ex_trained []) \<lparr>isTrained := False\<rparr>) ex_trainingSet = Inr ?s"
    by (simp add: trainLanguageModel_def ex_toolkit_def ex_trained_eq)
  have 2: "trainKmeans ?tk ?s ex_trainingSet = Inr ?s"
    by (simp add: trainKmeans_def kmeans_data_def wordVectors_def ex_toolkit_def ex_trainingSet_def)
  have 3: "trainCrf ?tk ?s ex_trainingSet = Inl (Backend ''crf'')"
    by (simp add: trainCrf_def ex_toolkit_def ex_trainingSet_def crf_example_def vectorize_all_def
        vectorize_def vectorizeToken_at_def vectorizeToken_def getWordCluster_def wordVectors_def
        upt_rec Let_def)
  from 1 2 3 have "trainLanguageModel ?tk ''o'' ((ex_trained []) \<lparr>isTrained := False\<rparr>) ex_trainingSet = Inl (Backend ''crf'')
     \<or> (\<exists>s1. trainLanguageModel ?tk ''o'' ((ex_trained []) \<lparr>isTrained := False\<rparr>) ex_trainingSet = Inr s1 \<and>
          (trainKmeans ?tk s1 ex_trainingSet = Inl (Backend ''crf'')
           \<or> (\<exists>s2. trainKmeans ?tk s1 ex_trainingSet = Inr s2 \<and>
                (trainCrf ?tk s2 ex_trainingSet = Inl (Backend ''crf'')
                 \<or> (\<exists>s3. trainCrf ?tk s2 ex_trainingSet = Inr s3 \<and> open_tagger ?tk s3 = Inl (Backend ''crf''))))))"
    by blast
  from train_failure_leaves_untrained [OF this, of "ex_toolkit [''o'']"
      "\<lparr>seq_tokens = [ex_token ''hello'' 0 5], seq_intent = ''play''\<rparr>"]
  obtain s where s: "train ?tk ''o'' (ex_trained []) ex_trainingSet = (Some (Backend ''crf''), s)"
     and t: "tag (ex_toolkit [''o'']) s \<lparr>seq_tokens = [ex_token ''hello'' 0 5], seq_intent = ''play''\<rparr> = Inl NotTrained"
    by blast
  have "train ?tk ''o'' (ex_trained []) ex_trainingSet = (Some (Backend ''crf''), ?s)"
    using 1 2 3 by (simp add: train_def Let_def)
  with s t show ?thesis by simp
qed

text \<open>
  C7, as claimed: training on fewer than 15 distinct word vectors fails. The source
  hands k-means one vector for each token and counts nothing itself, so with a k-means
  that counts the points, sixteen utterances \<open>a\<close> give sixteen points and one distinct
  vector, and training succeeds.
\<close>

theorem kmeans_on_repeated_vectors_counterexample:
  "kmeans_data ex_points_toolkit
      \<lparr>isTrained = False, ft = Some (), kmeansModel = None, crfModelFn = [], tagger = None\<rparr>
      ex_repeated = Inr (replicate 16 ''a'')
   \<and> card (set (replicate 16 ''a'')) = 1
   \<and> train ex_points_toolkit ''o'' new_CRFExtractor ex_repeated
       = (None, \<lparr>isTrained = True, ft = Some (), kmeansModel = Some (), crfModelFn = ''crf.bin'',
                 tagger = Some ()\<rparr>)"
proof -
  let ?s = "\<lparr>isTrained = False, ft = Some (), kmeansModel = None, crfModelFn = [], tagger = None\<rparr>
     :: (unit, unit, unit) CRFExtractor"
  let ?tok = "\<lparr>tok_value = ''a'', tok_start = 0, tok_end = 1, tok_tag = ''o'',
                       tok_slot = None, tok_matchedEntities = []\<rparr>"
  have toks: "concat (map seq_tokens ex_repeated) = replicate 16 ?tok"
    by (simp add: ex_repeated_def concat_replicate_single)
  have data: "kmeans_data ex_points_toolkit ?s ex_repeated = Inr (replicate 16 ''a'')"
    unfolding kmeans_data_def toks
    by (rule mapSeries_replicate) (simp add: wordVectors_def ex_points_toolkit_def)
  have card: "card (set (replicate 16 ''a'')) = 1" by simp
  have lm: "trainLanguageModel ex_points_toolkit ''o'' (new_CRFExtractor\<lparr>isTrained := False\<rparr>) ex_repeated = Inr ?s"
    by (simp add: trainLanguageModel_def ex_points_toolkit_def new_CRFExtractor_def)
  let ?s2 = "\<lparr>isTrained = False, ft = Some (), kmeansModel = Some (), crfModelFn = [],
     tagger = None\<rparr> :: (unit, unit, unit) CRFExtractor"
  let ?seq = "\<lparr>seq_tokens = [?tok], seq_intent = ''play''\<rparr>"
  have "kmeans ex_points_toolkit (replicate 16 ''a'') K_CLUSTERS = Inr ()"
    by (simp add: K_CLUSTERS_def kmeans_by_points_def ex_points_toolkit_def)
  then have km: "trainKmeans ex_points_toolkit ?s ex_repeated = Inr ?s2"
    by (simp add: trainKmeans_def data)
  have ex: "crf_example (getWordCluster ex_points_toolkit ?s2) ?seq =
      Inr ([[''w[0]bos'', ''w[0]intent=play'', ''w[0]low'', ''w[0]entity=none'', ''w[0]eos'']], [''o''])"
    by (simp add: crf_example_def vectorize_all_def vectorize_def vectorizeToken_at_def
        vectorizeToken_def case_eval Let_def label_def labelSlot_def)
  have ms: "mapSeries (crf_example (getWordCluster ex_points_toolkit ?s2)) (replicate 16 ?seq) =
      Inr (replicate 16
        ([[''w[0]bos'', ''w[0]intent=play'', ''w[0]low'', ''w[0]entity=none'', ''w[0]eos'']], [''o'']))"
    using ex by (rule mapSeries_replicate)
  have "crf_train ex_points_toolkit
      (replicate 16
        ([[''w[0]bos'', ''w[0]intent=play'', ''w[0]low'', ''w[0]entity=none'', ''w[0]eos'']], [''o'']))
      = Inr ''crf.bin''"
    by (simp add: ex_points_toolkit_def)
  then have crf: "trainCrf ex_points_toolkit ?s2 ex_repeated = Inr (?s2\<lparr>crfModelFn := ''crf.bin''\<rparr>)"
    unfolding trainCrf_def ex_repeated_def ms by simp
  have op: "open_tagger ex_points_toolkit (?s2\<lparr>crfModelFn := ''crf.bin''\<rparr>)
      = Inr (?s2\<lparr>crfModelFn := ''crf.bin'', tagger := Some ()\<rparr>)"
    by (simp add: open_tagger_def ex_points_toolkit_def)
  have "train ex_points_toolkit ''o'' new_CRFExtractor ex_repeated
       = (None, \<lparr>isTrained = True, ft = Some (), kmeansModel = Some (), crfModelFn = ''crf.bin'',
                 tagger = Some ()\<rparr>)"
    using op by (simp add: train_def lm km crf)
  with data card show ?thesis by blast
qed

text \<open>
  C7, amended: when the language model is trained and every token's word vector is
  found, \<open>_trainKmeans\<close> makes one call of k-means, with \<open>K = 15\<close>, on the word vectors of
  all tokens of the training corpus, one for each token in corpus order (a repeated
  value repeats its vector), and counts nothing itself: when that call raises,
  \<open>train\<close> ends with the same error, the trained flag is false and tagging fails with
  the not-trained error; otherwise the model is stored.
\<close>

theorem trainKmeans_clusters_token_vectors:
  fixes ts :: "Sequence list"
  defines "tokens \<equiv> concat (map seq_tokens ts)"
  assumes lm: "trainLanguageModel tk out (this\<lparr>isTrained := False\<rparr>) ts = Inr s1"
    and vec: "\<forall>t \<in> set tokens. wordVectors tk s1 (tok_value t) = Inr (vec (tok_value t))"
  shows "trainKmeans tk s1 ts =
           (case kmeans tk (map (\<lambda>t. vec (tok_value t)) tokens) 15 of
              Inl e \<Rightarrow> Inl e
            | Inr m \<Rightarrow> Inr (s1\<lparr>kmeansModel := Some m\<rparr>))
       \<and> (\<forall>e. kmeans tk (map (\<lambda>t. vec (tok_value t)) tokens) 15 = Inl e \<longrightarrow>
             train tk out this ts = (Some e, s1) \<and> \<not> isTrained s1
           \<and> tag tk' s1 seq = Inl NotTrained)"
proof -
  have data: "kmeans_data tk s1 ts = Inr (map (\<lambda>t. vec (tok_value t)) tokens)"
    unfolding kmeans_data_def tokens_def [symmetric]
    using vec by (intro mapSeries_map) simp
  then have a: "trainKmeans tk s1 ts =
           (case kmeans tk (map (\<lambda>t. vec (tok_value t)) tokens) 15 of
              Inl e \<Rightarrow> Inl e
            | Inr m \<Rightarrow> Inr (s1\<lparr>kmeansModel := Some m\<rparr>))"
    by (simp add: trainKmeans_def K_CLUSTERS_def)
  have b: "train tk out this ts = (Some e, s1) \<and> \<not> isTrained s1 \<and> tag tk' s1 seq = Inl NotTrained"
    if e: "kmeans tk (map (\<lambda>t. vec (tok_value t)) tokens) 15 = Inl e" for e
  proof -
    from a e have "trainKmeans tk s1 ts = Inl e" by simp
    then have t: "train tk out this ts = (Some e, s1)" by (simp add: train_def lm)
    then have u: "\<not> isTrained s1" by (rule train_failed_untrained)
    then have "tag tk' s1 seq = Inl NotTrained" by (rule tag_untrained)
    with t u show ?thesis by blast
  qed
  from a b show ?thesis by blast
qed

theorem trainKmeans_clusters_token_vectors_witness:
  "trainKmeans ex_points_toolkit
     \<lparr>isTrained = False, ft = Some (), kmeansModel = None, crfModelFn = [], tagger = None\<rparr>
     ex_trainingSet = Inl (Backend ''kmeans'')
   \<and> kmeans ex_points_toolkit [''play'', ''Kanye'', ''West''] 15 = Inl (Backend ''kmeans'')
   \<and> train ex_points_toolkit ''o'' new_CRFExtractor ex_trainingSet
       = (Some (Backend ''kmeans''),
          \<lparr>isTrained = False, ft = Some (), kmeansModel = None, crfModelFn = [], tagger = None\<rparr>)"
proof -
  let ?s = "\<lparr>isTrained = False, ft = Some (), kmeansModel = None, crfModelFn = [], tagger = None\<rparr>
     :: (unit, unit, unit) CRFExtractor"
  have lm: "trainLanguageModel ex_points_toolkit ''o'' (new_CRFExtractor\<lparr>isTrained := False\<rparr>)
      ex_trainingSet = Inr ?s"
    by (simp add: trainLanguageModel_def ex_points_toolkit_def new_CRFExtractor_def)
  have vec: "\<forall>t \<in> set (concat (map seq_tokens ex_trainingSet)).
      wordVectors ex_points_toolkit ?s (tok_value t) = Inr ((\<lambda>w. w) (tok_value t))"
    by (simp add: wordVectors_def ex_points_toolkit_def)
  have km: "kmeans ex_points_toolkit [''play'', ''Kanye'', ''West''] 15 = Inl (Backend ''kmeans'')"
    by (simp add: ex_points_toolkit_def kmeans_by_points_def)
  have toks: "map tok_value (concat (map seq_tokens ex_trainingSet)) = [''play'', ''Kanye'', ''West'']"
    by (simp add: ex_trainingSet_def)
  from trainKmeans_clusters_token_vectors [OF lm vec, of "ex_toolkit []"
      "\<lparr>seq_tokens = [], seq_intent = ''play''\<rparr>"] km
  show ?thesis by (simp add: toks)
qed

end
